theory Spec2Isabelle
  imports Complex_Main
begin

section \<open>Conventions\<close>

text \<open>
  A Python \<open>str\<close> or \<open>bytes\<close> value is a \<open>string\<close>; a character outside ASCII stands as
  the bytes the source file holds for it. A Python \<open>float\<close> is read as the exact rational it
  denotes (\<open>0.2\<close> is \<open>1/5\<close>), so the arithmetic below is exact and IEEE rounding is not
  part of the model. A call into a library or a remote service is a field of a record of
  functions; where the call can raise, the field returns an \<open>option\<close> and \<open>None\<close> is the
  exception.
\<close>

section \<open>Data models\<close>

record ChatRequest =
  message :: string
  user_id :: string

record ChatResponse =
  response :: string
  user_id :: string
  confidence_score :: rat
  suggest_ticket :: bool

record HealthResponse =
  status :: string
  service :: string
  timestamp :: string

record UploadResponse =
  success :: bool
  message :: string
  documents_processed :: nat
  total_chunks_created :: nat

record ClearResponse =
  success :: bool
  message :: string

datatype HTTPException = HTTPException nat string

record chunk_metadata =
  fileName :: string
  fileType :: string
  userId :: string
  chunkIndex :: nat
  totalChunks :: nat
  category :: string
  uploadTimestamp :: string

record LangChainDocument =
  page_content :: string
  metadata :: chunk_metadata

section \<open>The Redis database and the client handles\<close>

datatype store_call = AddDocuments "LangChainDocument list" | FlushDb

text \<open>
  The Redis database: the documents of the vector index, the other keys of the same
  database, the schema attribute of the vector store handle, and the log of the mutating
  calls issued so far (most recent last).
\<close>

record world =
  index_docs :: "LangChainDocument list"
  other_keys :: "(string \<times> string) list"
  vs_schema :: string
  store_calls :: "store_call list"

text \<open>
  \<open>similarity_search stored query k\<close> is the retriever's answer; \<open>add_documents_raises stored new\<close>
  says whether embedding or writing the batch raises; \<open>check_index_schema\<close> is the schema the
  class method returns.
\<close>

record RedisVectorStore =
  similarity_search :: "LangChainDocument list \<Rightarrow> string \<Rightarrow> nat \<Rightarrow> LangChainDocument list option"
  add_documents_raises :: "LangChainDocument list \<Rightarrow> LangChainDocument list \<Rightarrow> bool"
  check_index_schema :: "string option"

record OllamaLLM =
  invoke :: "(string \<times> string) list \<Rightarrow> string option"

record RedisClient =
  flushdb_raises :: bool

record globals =
  vectorstore :: "RedisVectorStore option"
  chat_model :: "OllamaLLM option"
  redis_client :: "RedisClient option"

type_synonym services = "RedisVectorStore \<times> OllamaLLM \<times> RedisClient"

definition NL :: string where
  "NL = [CHR 0x0A]"

definition SYSTEM_PROMPT_before :: string where
  "SYSTEM_PROMPT_before =
     NL @ ''        You are a financial assistant. Provide concise, helpful answers using the context below.''
     @ NL @ ''        Keep responses under 150 words for mobile users.''
     @ NL @ ''        ''
     @ NL @ ''        CONTEXT:''
     @ NL @ ''        ''"

definition SYSTEM_PROMPT_after :: string where
  "SYSTEM_PROMPT_after = NL @ ''        ''"

text \<open>The system prompt with \<open>{documents}\<close> filled in.\<close>

definition SYSTEM_PROMPT :: "string \<Rightarrow> string" where
  "SYSTEM_PROMPT documents = SYSTEM_PROMPT_before @ documents @ SYSTEM_PROMPT_after"

section \<open>Dependency check\<close>

definition get_services :: "globals \<Rightarrow> HTTPException + services" where
  "get_services g =
     (case (vectorstore g, chat_model g, redis_client g) of
        (Some vs, Some cm, Some rc) \<Rightarrow> Inr (vs, cm, rc)
      | _ \<Rightarrow> Inl (HTTPException 503 ''Core services (Ollama/Redis) are not available.''))"

section \<open>Chat endpoint\<close>

text \<open>Python's \<open>sep.join(xs)\<close>.\<close>

fun join :: "string \<Rightarrow> string list \<Rightarrow> string" where
  "join sep [] = []"
| "join sep [x] = x"
| "join sep (x # y # ys) = x @ sep @ join sep (y # ys)"

definition CONTEXT_SEPARATOR :: string where
  "CONTEXT_SEPARATOR = NL @ ''---'' @ NL"

definition NO_CONTEXT :: string where
  "NO_CONTEXT = ''No specific context available.''"

definition ESCALATION_NOTICE :: string where
  "ESCALATION_NOTICE =
     NL @ NL @ [CHR 0xC3, CHR 0xB0, CHR 0xC5, CHR 0xB8, CHR 0xE2, CHR 0x80, CHR 0x99, CHR 0xC2, CHR 0xA1]
     @ '' **Need more help?** Contact our customer service team for personalized assistance.''"

text \<open>Step 2 of \<open>chat\<close> (lines 169 to 172): the context block.\<close>

definition documents_context :: "LangChainDocument list \<Rightarrow> string" where
  "documents_context relevant_docs =
     (let doc_texts = map page_content relevant_docs;
          joined = join CONTEXT_SEPARATOR doc_texts
      in if joined = [] then NO_CONTEXT else joined)"

text \<open>Step 3: the two messages of the prompt template, filled in.\<close>

definition prompt_messages :: "string \<Rightarrow> string \<Rightarrow> (string \<times> string) list" where
  "prompt_messages documents query =
     [(''system'', SYSTEM_PROMPT documents), (''human'', query)]"

text \<open>Step 5 (line 189): the confidence score.\<close>

definition confidence :: "LangChainDocument list \<Rightarrow> rat" where
  "confidence relevant_docs =
     (if relevant_docs = [] then 2 / 10
      else min 1 (5 / 10 + (of_nat (length relevant_docs) / 3 * (5 / 10))))"

definition chat :: "ChatRequest \<Rightarrow> services \<Rightarrow> world \<Rightarrow> HTTPException + ChatResponse" where
  "chat request svc w =
     (case svc of (vs, cm, _) \<Rightarrow>
        (case similarity_search vs (index_docs w) (ChatRequest.message request) 3 of
           None \<Rightarrow> Inl (HTTPException 500 ''Internal server error occurred.'')
         | Some relevant_docs \<Rightarrow>
             (case invoke cm (prompt_messages (documents_context relevant_docs)
                                (ChatRequest.message request)) of
                None \<Rightarrow> Inl (HTTPException 500 ''Internal server error occurred.'')
              | Some response_text \<Rightarrow>
                  (let score = confidence relevant_docs;
                       suggest = (score < 5 / 10);
                       response_text' =
                         (if suggest then response_text @ ESCALATION_NOTICE else response_text)
                   in Inr \<lparr>response = response_text',
                           user_id = ChatRequest.user_id request,
                           confidence_score = score,
                           suggest_ticket = suggest\<rparr>))))"

section \<open>Document parsers\<close>

text \<open>
  An openpyxl workbook: the sheet names in workbook order and the rows of each sheet
  (every sheet is a worksheet); a cell is its value, \<open>None\<close> for an empty cell.
\<close>

record 'v Workbook =
  sheetnames :: "string list"
  getitem :: "string \<Rightarrow> 'v option list list"

text \<open>
  The libraries behind the parsers and the upload: the per-page results of
  \<open>extract_text\<close> of a PDF, the paragraph texts of a DOCX file, the workbook of an XLSX
  file (each \<open>None\<close> when the library raises on these bytes), Python's \<open>str\<close> on a cell
  value, the text splitter, and the clock (\<open>now_isoformat n\<close> is the reading of the
  \<open>n\<close>-th call of \<open>datetime.datetime.now().isoformat()\<close> within one request).
\<close>

record 'v externals =
  PdfReader_pages :: "string \<Rightarrow> string option list option"
  Document_paragraphs :: "string \<Rightarrow> string list option"
  load_workbook :: "string \<Rightarrow> 'v Workbook option"
  str :: "'v \<Rightarrow> string"
  split_text :: "string \<Rightarrow> string list"
  now_isoformat :: "nat \<Rightarrow> string"

definition parse_pdf :: "'v externals \<Rightarrow> string \<Rightarrow> string option" where
  "parse_pdf ext contents =
     (case PdfReader_pages ext contents of
        None \<Rightarrow> None
      | Some pages \<Rightarrow>
          Some (foldl (\<lambda>text page. text @ (case page of None \<Rightarrow> [] | Some t \<Rightarrow> t)) [] pages))"

definition parse_docx :: "'v externals \<Rightarrow> string \<Rightarrow> string option" where
  "parse_docx ext contents =
     (case Document_paragraphs ext contents of
        None \<Rightarrow> None
      | Some paragraphs \<Rightarrow> Some (foldl (\<lambda>text para. text @ para @ NL) [] paragraphs))"

text \<open>Line 147: \<open>[str(cell.value) for cell in row if cell.value is not None]\<close>.\<close>

definition row_values :: "('v \<Rightarrow> string) \<Rightarrow> 'v option list \<Rightarrow> string list" where
  "row_values str_of row = [str_of v. Some v \<leftarrow> row]"

text \<open>The body of the row loop of \<open>parse_xlsx\<close> (lines 147 to 149).\<close>

definition xlsx_row :: "('v \<Rightarrow> string) \<Rightarrow> string \<Rightarrow> 'v option list \<Rightarrow> string" where
  "xlsx_row str_of text row =
     (if row_values str_of row \<noteq> [] then text @ join '' | '' (row_values str_of row) @ NL
      else text)"

text \<open>The body of the sheet loop (lines 144 to 150).\<close>

definition xlsx_sheet :: "('v \<Rightarrow> string) \<Rightarrow> 'v Workbook \<Rightarrow> string \<Rightarrow> string \<Rightarrow> string" where
  "xlsx_sheet str_of wb text sheet_name =
     (let sheet = getitem wb sheet_name;
          text1 = text @ ''Sheet: '' @ sheet_name @ NL;
          text2 = foldl (xlsx_row str_of) text1 sheet
      in text2 @ NL)"

definition xlsx_text :: "('v \<Rightarrow> string) \<Rightarrow> 'v Workbook \<Rightarrow> string" where
  "xlsx_text str_of wb = foldl (xlsx_sheet str_of wb) [] (sheetnames wb)"

definition parse_xlsx :: "'v externals \<Rightarrow> string \<Rightarrow> string option" where
  "parse_xlsx ext contents =
     (case load_workbook ext contents of
        None \<Rightarrow> None
      | Some wb \<Rightarrow> Some (xlsx_text (str ext) wb))"

subsection \<open>The XLSX text as the specification words it\<close>





section \<open>Upload endpoint\<close>

record UploadFile =
  filename :: string
  content_type :: string
  read :: "string option"

definition parsers :: "'v externals \<Rightarrow> string \<rightharpoonup> (string \<Rightarrow> string option)" where
  "parsers ext =
     [''application/pdf'' \<mapsto> parse_pdf ext,
      ''application/vnd.openxmlformats-officedocument.wordprocessingml.document'' \<mapsto> parse_docx ext,
      ''application/msword'' \<mapsto> parse_docx ext,
      ''application/vnd.openxmlformats-officedocument.spreadsheetml.sheet'' \<mapsto> parse_xlsx ext,
      ''application/vnd.ms-excel'' \<mapsto> parse_xlsx ext]"

text \<open>
  Python's \<open>str.isspace\<close> on ASCII: at least one character, and all of them among tab,
  line feed, vertical tab, form feed, carriage return, the four separators \<open>0x1C\<close> to
  \<open>0x1F\<close>, and space. Whitespace code points beyond ASCII are not recognised here.
\<close>

definition is_whitespace :: "char \<Rightarrow> bool" where
  "is_whitespace c =
     (let n = (of_char c :: nat) in (9 \<le> n \<and> n \<le> 13) \<or> (28 \<le> n \<and> n \<le> 32))"

definition isspace :: "string \<Rightarrow> bool" where
  "isspace s = (s \<noteq> [] \<and> list_all is_whitespace s)"

text \<open>Python's \<open>str\<close> on a non-negative integer.\<close>

fun str_nat :: "nat \<Rightarrow> string" where
  "str_nat n =
     (if n < 10 then [char_of (48 + n)]
      else str_nat (n div 10) @ [char_of (48 + n mod 10)])"

text \<open>
  Step 3 of the loop body (lines 253 to 263): the documents of one file; \<open>calls\<close> is the
  number of clock readings taken before.
\<close>

definition make_documents ::
  "'v externals \<Rightarrow> UploadFile \<Rightarrow> string \<Rightarrow> string list \<Rightarrow> nat \<Rightarrow> LangChainDocument list" where
  "make_documents ext file uid chunks calls =
     map (\<lambda>(i, chunk).
            \<lparr>page_content = chunk,
             metadata = \<lparr>fileName = filename file,
                         fileType = content_type file,
                         userId = uid,
                         chunkIndex = i,
                         totalChunks = length chunks,
                         category = ''financial_literacy'',
                         uploadTimestamp = now_isoformat ext (calls + i)\<rparr>\<rparr>)
         (enumerate 0 chunks)"

text \<open>
  The loop over the files (lines 234 to 270), on the accumulators
  \<open>(total_chunks, docs_processed, all_langchain_docs)\<close>. \<open>Inl\<close> is the exception raised
  by the handler of line 268.
\<close>

fun process_files ::
  "'v externals \<Rightarrow> string \<Rightarrow> UploadFile list \<Rightarrow> nat \<times> nat \<times> LangChainDocument list
   \<Rightarrow> HTTPException + nat \<times> nat \<times> LangChainDocument list" where
  "process_files ext uid [] acc = Inr acc"
| "process_files ext uid (file # files) (total_chunks, docs_processed, all_langchain_docs) =
     (case parsers ext (content_type file) of
        None \<Rightarrow> process_files ext uid files (total_chunks, docs_processed, all_langchain_docs)
      | Some parser \<Rightarrow>
          (case read file of
             None \<Rightarrow> Inl (HTTPException 500 (''Error processing file: '' @ filename file))
           | Some contents \<Rightarrow>
               (case parser contents of
                  None \<Rightarrow> Inl (HTTPException 500 (''Error processing file: '' @ filename file))
                | Some extracted_text \<Rightarrow>
                    if extracted_text = [] \<or> isspace extracted_text
                    then process_files ext uid files
                           (total_chunks, docs_processed, all_langchain_docs)
                    else
                      (let chunks = split_text ext extracted_text;
                           docs = make_documents ext file uid chunks (length all_langchain_docs)
                       in process_files ext uid files
                            (total_chunks + length chunks, docs_processed + 1,
                             all_langchain_docs @ docs)))))"

text \<open>
  How the loop body treats one file. \<open>file_raises\<close>: the \<open>try\<close> block of lines 239 to 266
  raises on it (while reading or parsing). \<open>file_valid\<close>: it is of a supported type and
  yields extracted text that is neither empty nor all whitespace.
\<close>

definition file_raises :: "'v externals \<Rightarrow> UploadFile \<Rightarrow> bool" where
  "file_raises ext file =
     (case parsers ext (content_type file) of
        None \<Rightarrow> False
      | Some parser \<Rightarrow>
          (case read file of None \<Rightarrow> True | Some contents \<Rightarrow> parser contents = None))"

definition file_valid :: "'v externals \<Rightarrow> UploadFile \<Rightarrow> bool" where
  "file_valid ext file =
     (case parsers ext (content_type file) of
        None \<Rightarrow> False
      | Some parser \<Rightarrow>
          (case read file of
             None \<Rightarrow> False
           | Some contents \<Rightarrow>
               (case parser contents of
                  None \<Rightarrow> False
                | Some extracted_text \<Rightarrow> \<not> (extracted_text = [] \<or> isspace extracted_text))))"

definition upload_response :: "nat \<Rightarrow> nat \<Rightarrow> UploadResponse" where
  "upload_response docs_processed total_chunks =
     \<lparr>UploadResponse.success = True,
      UploadResponse.message =
        ''Successfully processed '' @ str_nat docs_processed @ '' files into ''
        @ str_nat total_chunks @ '' chunks.'',
      documents_processed = docs_processed,
      total_chunks_created = total_chunks\<rparr>"

text \<open>
  A call of \<open>add_documents\<close> is logged; when it does not raise, the batch is appended to
  the index, and when it raises the index is taken to stay as it was.
\<close>

definition upload_multiple_documents ::
  "'v externals \<Rightarrow> UploadFile list \<Rightarrow> string \<Rightarrow> services \<Rightarrow> world
   \<Rightarrow> (HTTPException + UploadResponse) \<times> world" where
  "upload_multiple_documents ext files uid svc w =
     (case svc of (vs, _, _) \<Rightarrow>
        if files = [] then (Inl (HTTPException 400 ''No files provided''), w)
        else
          (case process_files ext uid files (0, 0, []) of
             Inl e \<Rightarrow> (Inl e, w)
           | Inr (total_chunks, docs_processed, all_langchain_docs) \<Rightarrow>
               if all_langchain_docs \<noteq> [] then
                 (let w1 = w\<lparr>store_calls := store_calls w @ [AddDocuments all_langchain_docs]\<rparr>
                  in if add_documents_raises vs (index_docs w) all_langchain_docs
                     then (Inl (HTTPException 500 ''Error adding documents to vector store.''), w1)
                     else (Inr (upload_response docs_processed total_chunks),
                           w1\<lparr>index_docs := index_docs w @ all_langchain_docs\<rparr>))
               else (Inr (upload_response docs_processed total_chunks), w)))"

section \<open>Admin endpoints\<close>

definition clear_all_documents ::
  "string \<Rightarrow> services \<Rightarrow> world \<Rightarrow> (HTTPException + ClearResponse) \<times> world" where
  "clear_all_documents admin_key svc w =
     (case svc of (vs, _, rc) \<Rightarrow>
        if admin_key \<noteq> ''admin123'' then (Inl (HTTPException 403 ''Unauthorized''), w)
        else
          (let w1 = w\<lparr>store_calls := store_calls w @ [FlushDb]\<rparr>
           in if flushdb_raises rc
              then (Inl (HTTPException 500 ''Failed to clear documents.''), w1)
              else
                (let w2 = w1\<lparr>index_docs := [], other_keys := []\<rparr>
                 in case check_index_schema vs of
                      None \<Rightarrow> (Inl (HTTPException 500 ''Failed to clear documents.''), w2)
                    | Some schema \<Rightarrow>
                        (Inr \<lparr>ClearResponse.success = True,
                              ClearResponse.message =
                                ''All documents cleared successfully. The index is ready for new uploads.''\<rparr>,
                         w2\<lparr>vs_schema := schema\<rparr>))))"

definition health_check :: "'v externals \<Rightarrow> HealthResponse" where
  "health_check ext =
     \<lparr>status = ''healthy'',
      service = ''Financial Literacy Chatbot'',
      timestamp = now_isoformat ext 0\<rparr>"

section \<open>Routing\<close>

text \<open>
  The four routes of the application. The first three declare \<open>Depends(get_services)\<close>,
  which runs before the endpoint's body; \<open>/health\<close> declares no dependency.
\<close>

datatype request =
    ChatCall ChatRequest
  | UploadCall "UploadFile list" string
  | ClearAllCall string
  | HealthCall

datatype reply =
    ChatReply ChatResponse
  | UploadReply UploadResponse
  | ClearReply ClearResponse
  | HealthReply HealthResponse

definition app ::
  "'v externals \<Rightarrow> globals \<Rightarrow> request \<Rightarrow> world \<Rightarrow> (HTTPException + reply) \<times> world" where
  "app ext g req w =
     (case req of
        ChatCall request \<Rightarrow>
          (case get_services g of
             Inl e \<Rightarrow> (Inl e, w)
           | Inr svc \<Rightarrow> (map_sum id ChatReply (chat request svc w), w))
      | UploadCall files uid \<Rightarrow>
          (case get_services g of
             Inl e \<Rightarrow> (Inl e, w)
           | Inr svc \<Rightarrow> apfst (map_sum id UploadReply) (upload_multiple_documents ext files uid svc w))
      | ClearAllCall admin_key \<Rightarrow>
          (case get_services g of
             Inl e \<Rightarrow> (Inl e, w)
           | Inr svc \<Rightarrow> apfst (map_sum id ClearReply) (clear_all_documents admin_key svc w))
      | HealthCall \<Rightarrow> (Inr (HealthReply (health_check ext)), w))"

section \<open>Example inputs\<close>

definition demo_metadata :: chunk_metadata where
  "demo_metadata = \<lparr>fileName = ''guide.pdf'', fileType = ''application/pdf'', userId = ''u1'',
     chunkIndex = 0, totalChunks = 1, category = ''financial_literacy'',
     uploadTimestamp = ''2025-01-01T00:00:00''\<rparr>"

definition demo_doc :: "string \<Rightarrow> LangChainDocument" where
  "demo_doc t = \<lparr>page_content = t, metadata = demo_metadata\<rparr>"

definition demo_vectorstore :: RedisVectorStore where
  "demo_vectorstore = \<lparr>similarity_search = (\<lambda>stored query k. Some (take k stored)),
     add_documents_raises = (\<lambda>stored new. False),
     check_index_schema = Some ''schema''\<rparr>"

definition demo_llm :: OllamaLLM where
  "demo_llm = \<lparr>invoke = (\<lambda>msgs. Some ''Save 20% of income.'')\<rparr>"

definition demo_redis :: RedisClient where
  "demo_redis = \<lparr>flushdb_raises = False\<rparr>"

definition demo_services :: services where
  "demo_services = (demo_vectorstore, demo_llm, demo_redis)"

definition demo_world :: "LangChainDocument list \<Rightarrow> world" where
  "demo_world ds = \<lparr>index_docs = ds, other_keys = [(''session:1'', ''x'')], vs_schema = ''schema'',
     store_calls = []\<rparr>"

definition demo_request :: ChatRequest where
  "demo_request = \<lparr>ChatRequest.message = ''How much should I save?'', ChatRequest.user_id = ''u1''\<rparr>"

definition demo_three :: "LangChainDocument list" where
  "demo_three = [demo_doc ''Save 20% of income.'', demo_doc ''Budget monthly.'', demo_doc ''Avoid debt.'']"

definition demo_workbook :: "string Workbook" where
  "demo_workbook =
     \<lparr>sheetnames = [''Budget'', ''Notes''],
      getitem = (\<lambda>name. if name = ''Budget''
                          then [[Some ''Rent'', None, Some ''900''], [None, None], [Some ''Food'']]
                          else [])\<rparr>"

text \<open>
  Toy libraries: a PDF is readable when its bytes start with \<open>%PDF\<close> and then has one page
  holding the rest; a DOCX file has one paragraph holding its bytes; every XLSX file is
  the workbook above; a cell value is its own text; the splitter returns one chunk; the
  clock stands still.
\<close>

definition demo_externals :: "string externals" where
  "demo_externals =
     \<lparr>PdfReader_pages = (\<lambda>b. if take 4 b = ''%PDF'' then Some [Some (drop 4 b)] else None),
      Document_paragraphs = (\<lambda>b. Some [b]),
      load_workbook = (\<lambda>b. Some demo_workbook),
      str = (\<lambda>v. v),
      split_text = (\<lambda>t. [t]),
      now_isoformat = (\<lambda>n. ''2025-01-01T00:00:00'')\<rparr>"

definition corrupt_pdf :: UploadFile where
  "corrupt_pdf = \<lparr>filename = ''bad.pdf'', content_type = ''application/pdf'', read = Some ''garbage''\<rparr>"

definition good_pdf :: UploadFile where
  "good_pdf = \<lparr>filename = ''tips.pdf'', content_type = ''application/pdf'',
                read = Some ''%PDFSave 20% of income''\<rparr>"



definition failed_globals :: globals where
  "failed_globals = \<lparr>vectorstore = None, chat_model = None, redis_client = None\<rparr>"

section \<open>Auxiliary lemmas\<close>

lemma chat_InrE:
  assumes "chat request (vs, cm, rc) w = Inr r"
  obtains docs reply where
    "similarity_search vs (index_docs w) (ChatRequest.message request) 3 = Some docs"
    "invoke cm (prompt_messages (documents_context docs) (ChatRequest.message request)) = Some reply"
    "r = \<lparr>response = (if confidence docs < 5 / 10 then reply @ ESCALATION_NOTICE else reply),
          user_id = ChatRequest.user_id request,
          confidence_score = confidence docs,
          suggest_ticket = (confidence docs < 5 / 10)\<rparr>"
  using assms unfolding chat_def
  by (auto simp: Let_def split: option.splits)

lemma confidence_zero: "confidence [] = 1 / 5"
  by (simp add: confidence_def)

lemma confidence_by_length:
  "confidence ds = (if length ds = 0 then 1 / 5 else min 1 (1 / 2 + of_nat (length ds) / 6))"
  by (simp add: confidence_def)

lemma confidence_lower: "ds \<noteq> [] \<Longrightarrow> 2 / 3 \<le> confidence ds"
proof -
  assume "ds \<noteq> []"
  then have "1 \<le> length ds" by (cases ds) auto
  then have "(1::rat) \<le> of_nat (length ds)" by simp
  then show ?thesis using \<open>ds \<noteq> []\<close> by (simp add: confidence_def)
qed

lemma confidence_upper: "confidence ds \<le> 1"
  by (simp add: confidence_def)

lemma confidence_ge3: "3 \<le> length ds \<Longrightarrow> confidence ds = 1"
proof -
  assume a: "3 \<le> length ds"
  then have "(3::rat) \<le> of_nat (length ds)" by (metis of_nat_le_iff of_nat_numeral)
  moreover from a have "ds \<noteq> []" by auto
  ultimately show ?thesis by (simp add: confidence_def min_def)
qed

lemma confidence_mono: "length ds \<le> length es \<Longrightarrow> confidence ds \<le> confidence es"
proof -
  assume a: "length ds \<le> length es"
  show ?thesis
  proof (cases "ds = []")
    case True
    show ?thesis
    proof (cases "es = []")
      case True with \<open>ds = []\<close> show ?thesis by simp
    next
      case False
      from confidence_lower[OF this] True show ?thesis by (simp add: confidence_zero)
    qed
  next
    case False
    with a have "es \<noteq> []" by auto
    from a have "(of_nat (length ds) :: rat) \<le> of_nat (length es)" by simp
    with False \<open>es \<noteq> []\<close> show ?thesis by (simp add: confidence_def min_def)
  qed
qed

lemma join_empty_iff: "sep \<noteq> [] \<Longrightarrow> join sep xs = [] \<longleftrightarrow> xs = [] \<or> xs = [[]]"
  by (induction sep xs rule: join.induct) auto

lemma sep_nonempty: "CONTEXT_SEPARATOR \<noteq> []"
  by (simp add: CONTEXT_SEPARATOR_def NL_def)











lemma process_files_raises:
  "\<exists>file\<in>set files. file_raises ext file \<Longrightarrow>
   \<exists>detail. process_files ext uid files acc = Inl (HTTPException 500 detail)"
proof (induction files arbitrary: acc)
  case Nil
  then show ?case by simp
next
  case (Cons f fs)
  obtain a b c where acc: "acc = (a, b, c)" by (cases acc) auto
  show ?case
  proof (cases "file_raises ext f")
    case True
    then show ?thesis unfolding acc
      by (auto simp: file_raises_def split: option.splits)
  next
    case False
    with Cons.prems have "\<exists>x\<in>set fs. file_raises ext x" by auto
    from Cons.IH[OF this] False show ?thesis unfolding acc
      by (auto simp: file_raises_def Let_def split: option.splits)
  qed
qed


lemma chat_returns:
  assumes "similarity_search vs (index_docs w) (ChatRequest.message request) 3 = Some docs"
    and "invoke cm (prompt_messages (documents_context docs) (ChatRequest.message request)) = Some reply"
  shows "chat request (vs, cm, rc) w =
           Inr \<lparr>response = (if confidence docs < 5 / 10 then reply @ ESCALATION_NOTICE else reply),
                user_id = ChatRequest.user_id request,
                confidence_score = confidence docs,
                suggest_ticket = (confidence docs < 5 / 10)\<rparr>"
  using assms by (simp add: chat_def Let_def)





lemma documents_context_cases:
  "documents_context docs =
     (if docs = [] \<or> map page_content docs = [[]] then NO_CONTEXT
      else join CONTEXT_SEPARATOR (map page_content docs))"
  using join_empty_iff[OF sep_nonempty, of "map page_content docs"]
  by (simp add: documents_context_def Let_def)

section \<open>Properties of the chat endpoint\<close>

text \<open>
  C1. When the retriever and the model answer, \<open>chat\<close> returns a response whose confidence
  score is 0.2 if no chunk was retrieved and \<open>min(1.0, 0.5 + (count / 3.0) * 0.5)\<close>
  otherwise; with zero chunks it is 0.2 and \<open>suggest_ticket\<close> is true, with three chunks it
  is 1.0 and \<open>suggest_ticket\<close> is false.
\<close>

theorem chat_confidence_score:
  assumes "similarity_search vs (index_docs w) (ChatRequest.message request) 3 = Some docs"
    and "invoke cm (prompt_messages (documents_context docs) (ChatRequest.message request)) = Some reply"
  shows "\<exists>r. chat request (vs, cm, rc) w = Inr r \<and>
           confidence_score r =
             (if length docs = 0 then 2 / 10
              else min 1 (5 / 10 + (of_nat (length docs) / 3) * (5 / 10))) \<and>
           (length docs = 0 \<longrightarrow> confidence_score r = 2 / 10 \<and> suggest_ticket r) \<and>
           (length docs = 3 \<longrightarrow> confidence_score r = 1 \<and> \<not> suggest_ticket r)"
proof -
  have a: "confidence docs =
             (if length docs = 0 then 2 / 10
              else min 1 (5 / 10 + (of_nat (length docs) / 3) * (5 / 10)))"
    by (simp add: confidence_def)
  have b: "length docs = 0 \<longrightarrow> confidence docs = 2 / 10 \<and> confidence docs < 5 / 10"
    by (simp add: confidence_def)
  have c: "length docs = 3 \<longrightarrow> confidence docs = 1 \<and> \<not> confidence docs < 5 / 10"
    by (simp add: confidence_ge3)
  show ?thesis
    unfolding chat_returns[OF assms] using a b c by simp
qed

theorem chat_confidence_score_witness:
  "\<exists>r. chat demo_request (demo_vectorstore, demo_llm, demo_redis) (demo_world demo_three) = Inr r
       \<and> confidence_score r = 1 \<and> \<not> suggest_ticket r"
proof -
  have h1: "similarity_search demo_vectorstore (index_docs (demo_world demo_three))
              (ChatRequest.message demo_request) 3 = Some demo_three"
    by (simp add: demo_vectorstore_def demo_world_def demo_three_def)
  have h2: "invoke demo_llm (prompt_messages (documents_context demo_three)
              (ChatRequest.message demo_request)) = Some ''Save 20% of income.''"
    by (simp add: demo_llm_def)
  have l: "length demo_three = 3" by (simp add: demo_three_def)
  from chat_confidence_score[OF h1 h2, of demo_redis] l show ?thesis by auto
qed

text \<open>
  C3. Over any two answered queries, the confidence score depends on the number of
  retrieved chunks only and is non-decreasing in it; it never exceeds 1.0, and it is 0.2
  exactly when no chunk was retrieved.
\<close>

theorem chat_confidence_monotone:
  assumes "chat request1 (vs1, cm1, rc1) w1 = Inr r1"
    and "similarity_search vs1 (index_docs w1) (ChatRequest.message request1) 3 = Some docs1"
    and "chat request2 (vs2, cm2, rc2) w2 = Inr r2"
    and "similarity_search vs2 (index_docs w2) (ChatRequest.message request2) 3 = Some docs2"
  shows "(length docs1 \<le> length docs2 \<longrightarrow> confidence_score r1 \<le> confidence_score r2) \<and>
         (length docs1 = length docs2 \<longrightarrow> confidence_score r1 = confidence_score r2) \<and>
         confidence_score r1 \<le> 1 \<and>
         (confidence_score r1 = 2 / 10 \<longleftrightarrow> length docs1 = 0)"
proof -
  from assms(1,2) have s1: "confidence_score r1 = confidence docs1"
    by (auto elim!: chat_InrE)
  from assms(3,4) have s2: "confidence_score r2 = confidence docs2"
    by (auto elim!: chat_InrE)
  have m: "length docs1 \<le> length docs2 \<longrightarrow> confidence docs1 \<le> confidence docs2"
    by (simp add: confidence_mono)
  have e: "length docs1 = length docs2 \<longrightarrow> confidence docs1 = confidence docs2"
    by (simp add: confidence_by_length)
  have f: "confidence docs1 = 2 / 10 \<longleftrightarrow> length docs1 = 0"
  proof (cases "docs1 = []")
    case True then show ?thesis by (simp add: confidence_zero)
  next
    case False
    from confidence_lower[OF this] False show ?thesis by simp
  qed
  show ?thesis unfolding s1 s2 using m e f confidence_upper[of docs1] by blast
qed

theorem chat_confidence_monotone_witness:
  "confidence_score
     \<lparr>response = ''Save 20% of income.'' @ ESCALATION_NOTICE, user_id = ''u1'',
      confidence_score = 2 / 10, suggest_ticket = True\<rparr>
   \<le> confidence_score
     \<lparr>response = ''Save 20% of income.'', user_id = ''u1'',
      confidence_score = 1, suggest_ticket = False\<rparr>"
proof -
  have c1: "chat demo_request (demo_vectorstore, demo_llm, demo_redis) (demo_world []) =
              Inr \<lparr>response = ''Save 20% of income.'' @ ESCALATION_NOTICE, user_id = ''u1'',
                   confidence_score = 2 / 10, suggest_ticket = True\<rparr>"
    by (simp add: chat_def demo_vectorstore_def demo_llm_def demo_world_def demo_request_def
          confidence_def)
  have h1: "similarity_search demo_vectorstore (index_docs (demo_world []))
              (ChatRequest.message demo_request) 3 = Some []"
    by (simp add: demo_vectorstore_def demo_world_def)
  have h2: "similarity_search demo_vectorstore (index_docs (demo_world demo_three))
              (ChatRequest.message demo_request) 3 = Some demo_three"
    by (simp add: demo_vectorstore_def demo_world_def demo_three_def)
  have h3: "invoke demo_llm (prompt_messages (documents_context demo_three)
              (ChatRequest.message demo_request)) = Some ''Save 20% of income.''"
    by (simp add: demo_llm_def)
  have c2: "chat demo_request (demo_vectorstore, demo_llm, demo_redis) (demo_world demo_three) =
              Inr \<lparr>response = ''Save 20% of income.'', user_id = ''u1'',
                   confidence_score = 1, suggest_ticket = False\<rparr>"
    unfolding chat_returns[OF h2 h3, of demo_redis]
    by (simp add: demo_request_def confidence_ge3 demo_three_def)
  from chat_confidence_monotone[OF c1 h1 c2 h2] show ?thesis by simp
qed

text \<open>
  C4. When the retriever and the model answer, \<open>suggest_ticket\<close> is set exactly when the
  confidence score is below 0.5; the response text is the generated text followed by
  the escalation notice when \<open>suggest_ticket\<close> is true, and the generated text alone when
  it is false.
\<close>

theorem chat_suggest_ticket:
  assumes "similarity_search vs (index_docs w) (ChatRequest.message request) 3 = Some docs"
    and "invoke cm (prompt_messages (documents_context docs) (ChatRequest.message request)) = Some reply"
  shows "\<exists>r. chat request (vs, cm, rc) w = Inr r \<and>
           (suggest_ticket r \<longleftrightarrow> confidence_score r < 5 / 10) \<and>
           (suggest_ticket r \<longrightarrow> response r = reply @ ESCALATION_NOTICE) \<and>
           (\<not> suggest_ticket r \<longrightarrow> response r = reply)"
  unfolding chat_returns[OF assms] by simp

theorem chat_suggest_ticket_witness:
  "\<exists>r. chat demo_request (demo_vectorstore, demo_llm, demo_redis) (demo_world []) = Inr r
       \<and> suggest_ticket r \<and> response r = ''Save 20% of income.'' @ ESCALATION_NOTICE"
proof -
  have h1: "similarity_search demo_vectorstore (index_docs (demo_world []))
              (ChatRequest.message demo_request) 3 = Some []"
    by (simp add: demo_vectorstore_def demo_world_def)
  have h2: "invoke demo_llm (prompt_messages (documents_context [])
              (ChatRequest.message demo_request)) = Some ''Save 20% of income.''"
    by (simp add: demo_llm_def)
  from chat_suggest_ticket[OF h1 h2, of demo_redis]
  obtain r where r: "chat demo_request (demo_vectorstore, demo_llm, demo_redis) (demo_world []) = Inr r"
    "suggest_ticket r \<longleftrightarrow> confidence_score r < 5 / 10"
    "suggest_ticket r \<longrightarrow> response r = ''Save 20% of income.'' @ ESCALATION_NOTICE"
    by blast
  from r(1) chat_returns[OF h1 h2, of demo_redis] have "confidence_score r = confidence []"
    by auto
  with r show ?thesis by (auto simp: confidence_zero)
qed

text \<open>
  C5, as amended. In an answered chat call the model is invoked with the system prompt
  holding the context block and the user's query as second message. The context block is
  the retrieved chunks' texts joined with the separator, and the placeholder
  \<open>No specific context available.\<close> stands in exactly when that joined text is empty: when no
  chunk is retrieved, or when the single retrieved chunk has empty text.
\<close>

theorem chat_context_block:
  assumes "chat request (vs, cm, rc) w = Inr r"
    and "similarity_search vs (index_docs w) (ChatRequest.message request) 3 = Some docs"
  shows "(\<exists>reply. invoke cm
            [(''system'', SYSTEM_PROMPT_before @ documents_context docs @ SYSTEM_PROMPT_after),
             (''human'', ChatRequest.message request)] = Some reply) \<and>
         documents_context docs =
           (if docs = [] \<or> map page_content docs = [[]] then NO_CONTEXT
            else join CONTEXT_SEPARATOR (map page_content docs)) \<and>
         (docs = [] \<longrightarrow> documents_context docs = NO_CONTEXT)"
proof -
  from assms have "\<exists>reply. invoke cm (prompt_messages (documents_context docs)
                     (ChatRequest.message request)) = Some reply"
    by (auto elim!: chat_InrE)
  then have a: "\<exists>reply. invoke cm
            [(''system'', SYSTEM_PROMPT_before @ documents_context docs @ SYSTEM_PROMPT_after),
             (''human'', ChatRequest.message request)] = Some reply"
    by (simp add: prompt_messages_def SYSTEM_PROMPT_def)
  have b: "docs = [] \<longrightarrow> documents_context docs = NO_CONTEXT"
    by (simp add: documents_context_def)
  from a b documents_context_cases[of docs] show ?thesis by blast
qed

theorem chat_context_block_witness:
  "documents_context demo_three =
     ''Save 20% of income.'' @ CONTEXT_SEPARATOR @ ''Budget monthly.'' @ CONTEXT_SEPARATOR
     @ ''Avoid debt.''"
proof -
  have h1: "similarity_search demo_vectorstore (index_docs (demo_world demo_three))
              (ChatRequest.message demo_request) 3 = Some demo_three"
    by (simp add: demo_vectorstore_def demo_world_def demo_three_def)
  have h2: "invoke demo_llm (prompt_messages (documents_context demo_three)
              (ChatRequest.message demo_request)) = Some ''Save 20% of income.''"
    by (simp add: demo_llm_def)
  note c = chat_returns[OF h1 h2, of demo_redis]
  from chat_context_block[OF c h1] show ?thesis
    by (simp add: demo_three_def demo_doc_def)
qed

theorem chat_context_block_counterexample:
  "similarity_search demo_vectorstore (index_docs (demo_world [demo_doc '''']))
     (ChatRequest.message demo_request) 3 = Some [demo_doc '''']
   \<and> [demo_doc ''''] \<noteq> []
   \<and> join CONTEXT_SEPARATOR (map page_content [demo_doc '''']) = []
   \<and> documents_context [demo_doc ''''] = NO_CONTEXT"
  by (simp add: demo_vectorstore_def demo_world_def demo_doc_def documents_context_def)



section \<open>Properties of the upload endpoint\<close>

text \<open>
  C2. If reading or parsing any file of an upload batch raises, the whole request fails
  (HTTP 500) and nothing is written: the index and the log of store calls are as before,
  also when files before the failing one were processed successfully.
\<close>

theorem upload_parse_exception:
  assumes "\<exists>file\<in>set files. file_raises ext file"
  shows "\<exists>detail. upload_multiple_documents ext files uid svc w =
           (Inl (HTTPException 500 detail), w)"
proof -
  from assms have ne: "files \<noteq> []" by auto
  from process_files_raises[OF assms, of uid "(0, 0, [])"]
  obtain detail where "process_files ext uid files (0, 0, []) = Inl (HTTPException 500 detail)"
    by blast
  with ne show ?thesis
    by (cases svc) (simp add: upload_multiple_documents_def)
qed

theorem upload_parse_exception_witness:
  "file_valid demo_externals good_pdf \<and> file_raises demo_externals corrupt_pdf \<and>
   snd (upload_multiple_documents demo_externals [good_pdf, corrupt_pdf] ''u1'' demo_services
          (demo_world demo_three)) = demo_world demo_three"
proof -
  have v: "file_valid demo_externals good_pdf"
    by (simp add: file_valid_def parsers_def parse_pdf_def demo_externals_def good_pdf_def
          isspace_def is_whitespace_def)
  have h: "file_raises demo_externals corrupt_pdf"
    by (simp add: file_raises_def parsers_def parse_pdf_def demo_externals_def corrupt_pdf_def)
  then have "\<exists>file\<in>set [good_pdf, corrupt_pdf]. file_raises demo_externals file" by simp
  from upload_parse_exception[OF this, of "''u1''" demo_services "demo_world demo_three"] v h
  show ?thesis by auto
qed




section \<open>Properties of the XLSX parser\<close>



section \<open>Properties of the admin endpoints and the dependency check\<close>

text \<open>
  C7. A call of \<open>clear_all_documents\<close> with a key other than \<open>admin123\<close> returns HTTP 403 and
  leaves the database as it was: the index, the other keys, the schema and the log of
  store calls. Through the route the database is unchanged too, and the answer is the 403
  whenever the dependency check passes.
\<close>

theorem clear_all_wrong_key:
  assumes "admin_key \<noteq> ''admin123''"
  shows "clear_all_documents admin_key svc w = (Inl (HTTPException 403 ''Unauthorized''), w) \<and>
         snd (app ext g (ClearAllCall admin_key) w) = w \<and>
         (get_services g = Inr svc \<longrightarrow>
            app ext g (ClearAllCall admin_key) w = (Inl (HTTPException 403 ''Unauthorized''), w))"
proof -
  from assms have a: "clear_all_documents admin_key s w = (Inl (HTTPException 403 ''Unauthorized''), w)"
    for s by (cases s) (simp add: clear_all_documents_def)
  then show ?thesis
    by (auto simp: app_def split: sum.splits)
qed

theorem clear_all_wrong_key_witness:
  "''letmein'' \<noteq> ''admin123'' \<and>
   clear_all_documents ''letmein'' demo_services (demo_world demo_three) =
     (Inl (HTTPException 403 ''Unauthorized''), demo_world demo_three)"
proof -
  have h: "''letmein'' \<noteq> ''admin123''" by simp
  from clear_all_wrong_key[OF h, of demo_services "demo_world demo_three"] h
  show ?thesis by blast
qed

text \<open>
  C6, as amended. When one of the three clients is missing, the chat, upload and
  clear-all routes answer every request with HTTP 503 and leave the database as it was;
  the \<open>/health\<close> route, which has no dependency, still answers \<open>healthy\<close>.
\<close>

theorem app_services_unavailable:
  assumes "vectorstore g = None \<or> chat_model g = None \<or> redis_client g = None"
  shows "app ext g (ChatCall request) w =
           (Inl (HTTPException 503 ''Core services (Ollama/Redis) are not available.''), w) \<and>
         app ext g (UploadCall files uid) w =
           (Inl (HTTPException 503 ''Core services (Ollama/Redis) are not available.''), w) \<and>
         app ext g (ClearAllCall admin_key) w =
           (Inl (HTTPException 503 ''Core services (Ollama/Redis) are not available.''), w) \<and>
         app ext g HealthCall w = (Inr (HealthReply (health_check ext)), w) \<and>
         status (health_check ext) = ''healthy''"
proof -
  from assms have "get_services g =
      Inl (HTTPException 503 ''Core services (Ollama/Redis) are not available.'')"
    by (auto simp: get_services_def split: option.splits)
  then show ?thesis by (simp add: app_def health_check_def)
qed

theorem app_services_unavailable_witness:
  "vectorstore failed_globals = None \<and>
   app demo_externals failed_globals (ChatCall demo_request) (demo_world demo_three) =
     (Inl (HTTPException 503 ''Core services (Ollama/Redis) are not available.''),
      demo_world demo_three)"
proof -
  have h: "vectorstore failed_globals = None" by (simp add: failed_globals_def)
  then have "vectorstore failed_globals = None \<or> chat_model failed_globals = None \<or>
             redis_client failed_globals = None" by simp
  from app_services_unavailable[OF this, of demo_externals demo_request "demo_world demo_three"] h
  show ?thesis by blast
qed

theorem app_services_unavailable_counterexample:
  "vectorstore failed_globals = None \<and> chat_model failed_globals = None \<and>
   redis_client failed_globals = None \<and>
   app demo_externals failed_globals HealthCall (demo_world []) =
     (Inr (HealthReply \<lparr>status = ''healthy'', service = ''Financial Literacy Chatbot'',
                        timestamp = ''2025-01-01T00:00:00''\<rparr>), demo_world [])"
  by (simp add: failed_globals_def app_def health_check_def demo_externals_def)

end
